theory Spec2Isabelle
  imports Main
begin

section \<open>Paths: the parts of Go's \<open>strings\<close> and \<open>path/filepath\<close> that \<open>uboot.go\<close> calls\<close>

text \<open>
  Go strings are byte sequences; they are modelled as \<^typ>\<open>string\<close>. The functions of this
  section belong to Go's standard library (Unix flavour, separator \<open>/\<close>), not to the
  repository; they are written after the library's documented behaviour so that the paths
  the bootloader computes can be evaluated.
\<close>

text \<open>\<open>strings.Split(p, "/")\<close>: the pieces of \<open>p\<close> between separators, empty pieces kept.\<close>

fun splitPath :: "string \<Rightarrow> string list" where
  "splitPath [] = [[]]"
| "splitPath (c # cs) =
     (if c = CHR ''/'' then [] # splitPath cs
      else (case splitPath cs of [] \<Rightarrow> [[c]] | x # xs \<Rightarrow> (c # x) # xs))"

text \<open>\<open>strings.Join(elems, sep)\<close>.\<close>

fun strings_Join :: "string list \<Rightarrow> string \<Rightarrow> string" where
  "strings_Join [] sep = []"
| "strings_Join [x] sep = x"
| "strings_Join (x # y # ys) sep = x @ sep @ strings_Join (y # ys) sep"

text \<open>
  One step of the loop of \<open>filepath.Clean\<close>, on the elements written so far (the last one
  written is the head of the list): an empty element and \<open>.\<close> are dropped; \<open>..\<close> removes
  the element before it when there is one to remove, is kept at the front of a path that
  is not rooted, and is dropped at the root; any other element is appended.
\<close>

definition cleanElem :: "bool \<Rightarrow> string list \<Rightarrow> string \<Rightarrow> string list" where
  "cleanElem rooted out e =
     (if e = [] \<or> e = ''.'' then out
      else if e = ''..'' then
        (if out \<noteq> [] \<and> hd out \<noteq> ''..'' then tl out
         else if \<not> rooted then ''..'' # out
         else out)
      else e # out)"

text \<open>\<open>filepath.Clean(path)\<close>: the shortest path name equivalent to \<open>path\<close>.\<close>

definition Clean :: "string \<Rightarrow> string" where
  "Clean path =
     (if path = [] then ''.''
      else
        (let rooted = (hd path = CHR ''/'');
             out = rev (foldl (cleanElem rooted) [] (splitPath path));
             s = (if rooted then ''/'' else []) @ strings_Join out ''/''
         in if s = [] then ''.'' else s))"

text \<open>
  \<open>filepath.Join(elem...)\<close>: empty elements before the first non-empty one are ignored,
  the rest is joined with the separator and cleaned; the result is empty when every
  element is.
\<close>

definition Join :: "string list \<Rightarrow> string" where
  "Join elem =
     (case dropWhile (\<lambda>e. e = []) elem of
        [] \<Rightarrow> []
      | es \<Rightarrow> Clean (strings_Join es ''/''))"

text \<open>\<open>filepath.Dir(path)\<close>: everything up to the last separator, cleaned.\<close>

definition Dir :: "string \<Rightarrow> string" where
  "Dir path = Clean (rev (dropWhile (\<lambda>c. c \<noteq> CHR ''/'') (rev path)))"

section \<open>Data model\<close>

text \<open>
  Modelled from the spec: the declarations of \<open>Role\<close> and \<open>Options\<close> live in another
  file of package \<open>bootloader\<close>. The spec gives \<open>Role\<close> the three values None, Recovery
  and RunMode, and \<open>Options\<close> the fields \<open>Role\<close> and \<open>NoSlashBoot\<close>. A \<open>*Options\<close>
  argument is an \<^typ>\<open>'a option\<close>, \<open>nil\<close> being \<^const>\<open>None\<close>.
\<close>

datatype Role = RoleNone | RoleRecovery | RoleRunMode

record Options =
  Role :: Role
  NoSlashBoot :: bool

text \<open>\<open>type ubootBase struct\<close>.\<close>

record ubootBase =
  rootdir :: string
  basedir :: string
  ubootEnvFileName :: string

text \<open>
  The interface \<open>ubootCommon\<close> has two implementations, each embedding a \<open>ubootBase\<close>;
  \<open>type uboot struct { ubootCommon }\<close> holds one of them.
\<close>

datatype ubootCommon = ubootRedundEnv ubootBase | ubootNoRedundEnv ubootBase

type_synonym uboot = ubootCommon

fun base :: "ubootCommon \<Rightarrow> ubootBase" where
  "base (ubootRedundEnv b) = b"
| "base (ubootNoRedundEnv b) = b"

text \<open>A call either returns or panics with a message.\<close>

datatype 'a result = Return 'a | Panic string

section \<open>\<open>ubootBase\<close>\<close>

definition ubootBase_dir :: "ubootBase \<Rightarrow> string result" where
  "ubootBase_dir u =
     (if rootdir u = [] then Panic ''internal error: unset rootdir''
      else Return (Join [rootdir u, basedir u]))"

definition ubootBase_rootDir :: "ubootBase \<Rightarrow> string" where
  "ubootBase_rootDir u = rootdir u"

definition ubootBase_envFile :: "ubootBase \<Rightarrow> string result" where
  "ubootBase_envFile u =
     (case ubootBase_dir u of
        Panic msg \<Rightarrow> Panic msg
      | Return d \<Rightarrow> Return (Join [d, ubootEnvFileName u]))"

section \<open>The two variants\<close>

definition ubootRedundEnv_name :: string where
  "ubootRedundEnv_name = ''uboot''"

definition ubootRedundEnv_setDefaults :: "ubootBase \<Rightarrow> ubootBase" where
  "ubootRedundEnv_setDefaults u = u\<lparr>basedir := ''/boot/uboot/'', ubootEnvFileName := ''uboot.env''\<rparr>"

text \<open>
  The \<open>switch\<close> has two cases and the first ends in \<open>fallthrough\<close>: after setting
  \<open>basedir\<close> it runs the body of the second case without testing its condition.
\<close>

definition ubootRedundEnv_processBlOpts :: "Options option \<Rightarrow> ubootBase \<Rightarrow> ubootBase" where
  "ubootRedundEnv_processBlOpts blOpts u =
     (case blOpts of
        None \<Rightarrow> u
      | Some opts \<Rightarrow>
          if Role opts = RoleRecovery \<or> NoSlashBoot opts then
            (let u1 = u\<lparr>basedir := ''/uboot/ubuntu/''\<rparr>
             in u1\<lparr>ubootEnvFileName := ''boot.sel''\<rparr>)
          else if Role opts = RoleRunMode then u\<lparr>ubootEnvFileName := ''boot.sel''\<rparr>
          else u)"

definition ubootNoRedundEnv_name :: string where
  "ubootNoRedundEnv_name = ''uboot-nr''"

definition ubootNoRedundEnv_setDefaults :: "ubootBase \<Rightarrow> ubootBase" where
  "ubootNoRedundEnv_setDefaults u = u\<lparr>basedir := ''/boot/uboot-nr/'', ubootEnvFileName := ''uboot.env''\<rparr>"

definition ubootNoRedundEnv_processBlOpts :: "Options option \<Rightarrow> ubootBase \<Rightarrow> ubootBase" where
  "ubootNoRedundEnv_processBlOpts blOpts u =
     (case blOpts of
        None \<Rightarrow> u
      | Some opts \<Rightarrow>
          if Role opts = RoleRecovery \<or> NoSlashBoot opts then
            (let u1 = u\<lparr>basedir := ''/uboot-nr/ubuntu/''\<rparr>
             in u1\<lparr>ubootEnvFileName := ''boot.sel''\<rparr>)
          else if Role opts = RoleRunMode then u\<lparr>ubootEnvFileName := ''boot.sel''\<rparr>
          else u)"

section \<open>Method dispatch through \<open>ubootCommon\<close>\<close>

fun name :: "ubootCommon \<Rightarrow> string" where
  "name (ubootRedundEnv b) = ubootRedundEnv_name"
| "name (ubootNoRedundEnv b) = ubootNoRedundEnv_name"

fun setDefaults :: "ubootCommon \<Rightarrow> ubootCommon" where
  "setDefaults (ubootRedundEnv b) = ubootRedundEnv (ubootRedundEnv_setDefaults b)"
| "setDefaults (ubootNoRedundEnv b) = ubootNoRedundEnv (ubootNoRedundEnv_setDefaults b)"

fun processBlOpts :: "Options option \<Rightarrow> ubootCommon \<Rightarrow> ubootCommon" where
  "processBlOpts blOpts (ubootRedundEnv b) = ubootRedundEnv (ubootRedundEnv_processBlOpts blOpts b)"
| "processBlOpts blOpts (ubootNoRedundEnv b) = ubootNoRedundEnv (ubootNoRedundEnv_processBlOpts blOpts b)"

definition dir :: "ubootCommon \<Rightarrow> string result" where
  "dir u = ubootBase_dir (base u)"

definition rootDir :: "ubootCommon \<Rightarrow> string" where
  "rootDir u = ubootBase_rootDir (base u)"

definition envFile :: "ubootCommon \<Rightarrow> string result" where
  "envFile u = ubootBase_envFile (base u)"

section \<open>Constructors\<close>

text \<open>
  A Go struct literal leaves the fields it does not name at their zero value, the empty
  string.
\<close>

definition newUboot :: "string \<Rightarrow> Options option \<Rightarrow> uboot" where
  "newUboot rootdir' blOpts =
     (let u = ubootRedundEnv \<lparr>rootdir = rootdir', basedir = [], ubootEnvFileName = []\<rparr>;
          u1 = setDefaults u
      in processBlOpts blOpts u1)"

definition newUbootNoRedundEnv :: "string \<Rightarrow> Options option \<Rightarrow> uboot" where
  "newUbootNoRedundEnv rootdir' blOpts =
     (let u = ubootNoRedundEnv \<lparr>rootdir = rootdir', basedir = [], ubootEnvFileName = []\<rparr>;
          u1 = setDefaults u
      in processBlOpts blOpts u1)"

definition Name :: "uboot \<Rightarrow> string" where
  "Name u = name u"

section \<open>The collaborators outside \<open>uboot.go\<close>\<close>

text \<open>
  A Go \<open>error\<close> is an \<^typ>\<open>'a option\<close> of the type below, \<open>nil\<close> being \<^const>\<open>None\<close>:
  \<open>Errorf\<close> is an error built by \<open>fmt.Errorf\<close> in this file, \<open>SysError\<close> an error
  handed back by the operating system or by a collaborator.
\<close>

datatype error = Errorf string | SysError string

text \<open>
  Modelled from the spec: the flags of package \<open>ubootenv\<close> (\<open>OpenBestEffort\<close>,
  \<open>OpenNoRedundEnv\<close>) are bits of an integer whose declaration is not in this file; a
  flag word is the set of its bits, and \<open>|\<close> is union.
\<close>

datatype OpenFlag = OpenBestEffort | OpenNoRedundEnv

type_synonym OpenFlags = "OpenFlag set"

text \<open>
  Modelled from the spec: \<open>ubootenv.Env\<close>, the environment store. The spec gives its
  contract only: \<open>get(key)\<close> returns a string, \<open>set(key, value)\<close> stores one, \<open>save()\<close>
  persists the store or fails, and a name that is not set reads as the empty string.
\<close>

record Env =
  envFname :: string
  envSize :: int
  envFlags :: OpenFlags
  envData :: "string \<rightharpoonup> string"

definition Env_Get :: "Env \<Rightarrow> string \<Rightarrow> string" where
  "Env_Get env k = (case envData env k of None \<Rightarrow> [] | Some v \<Rightarrow> v)"

definition Env_Set :: "Env \<Rightarrow> string \<Rightarrow> string \<Rightarrow> Env" where
  "Env_Set env k v = env\<lparr>envData := (envData env)(k \<mapsto> v)\<rparr>"

text \<open>
  Modelled from the spec: \<open>snap.PlaceInfo\<close> is used through \<open>Filename()\<close> only, and a
  \<open>snap.Container\<close> is handed on unopened.
\<close>

record PlaceInfo =
  Filename :: string

datatype Container = Container string

text \<open>
  Every call that leaves \<open>uboot.go\<close> is written to a log, in order, with its arguments.
\<close>

datatype call =
    Call_Stat string
  | Call_MkdirAll string nat
  | Call_Create string int
  | Call_CreateWithFlags string int OpenFlags
  | Call_OpenWithFlags string OpenFlags
  | Call_Save string
  | Call_genericInstallBootConfig string string
  | Call_FileExists string
  | Call_extractKernelAssetsToBootDir string Container "string list"
  | Call_removeKernelAssetsFromBootDir string PlaceInfo

text \<open>
  The world the bootloader runs in: the environment stores that have been saved, by
  path, and the log of calls.
\<close>

record world =
  stores :: "string \<rightharpoonup> Env"
  trace :: "call list"

text \<open>
  What the collaborators answer is a parameter of the model: the result of \<open>os.Stat\<close>
  (an error, or the size of the file), and for every other call whether it fails and
  with which error.
\<close>

record sys =
  stat :: "string \<Rightarrow> error + int"
  mkdirAll :: "string \<Rightarrow> error option"
  createFails :: "string \<Rightarrow> error option"
  openFails :: "string \<Rightarrow> error option"
  saveFails :: "string \<Rightarrow> error option"
  installFails :: "string \<Rightarrow> string \<Rightarrow> error option"
  fileExists :: "string \<Rightarrow> bool"
  extractFails :: "string \<Rightarrow> error option"
  removeFails :: "string \<Rightarrow> error option"

definition logCall :: "call \<Rightarrow> world \<Rightarrow> world" where
  "logCall c w = w\<lparr>trace := trace w @ [c]\<rparr>"

text \<open>The calls a run added to the log.\<close>

definition newCalls :: "world \<Rightarrow> world \<Rightarrow> call list" where
  "newCalls w w' = drop (length (trace w)) (trace w')"

definition os_Stat :: "sys \<Rightarrow> string \<Rightarrow> world \<Rightarrow> (error + int) \<times> world" where
  "os_Stat sy p w = (stat sy p, logCall (Call_Stat p) w)"

definition os_MkdirAll :: "sys \<Rightarrow> string \<Rightarrow> nat \<Rightarrow> world \<Rightarrow> error option \<times> world" where
  "os_MkdirAll sy p perm w = (mkdirAll sy p, logCall (Call_MkdirAll p perm) w)"

text \<open>
  Modelled from the spec: \<open>ubootenv.Create\<close>, \<open>ubootenv.CreateWithFlags\<close>,
  \<open>ubootenv.OpenWithFlags\<close> and \<open>(*Env).Save\<close>. Creating gives a store with no variable
  set; saving writes the store under its file name; opening reads what was saved there.
\<close>

definition ubootenv_Create :: "sys \<Rightarrow> string \<Rightarrow> int \<Rightarrow> world \<Rightarrow> (error + Env) \<times> world" where
  "ubootenv_Create sy fname sz w =
     (let w1 = logCall (Call_Create fname sz) w in
      case createFails sy fname of
        Some err \<Rightarrow> (Inl err, w1)
      | None \<Rightarrow>
          (Inr \<lparr>envFname = fname, envSize = sz, envFlags = {}, envData = Map.empty\<rparr>, w1))"

definition ubootenv_CreateWithFlags ::
    "sys \<Rightarrow> string \<Rightarrow> int \<Rightarrow> OpenFlags \<Rightarrow> world \<Rightarrow> (error + Env) \<times> world" where
  "ubootenv_CreateWithFlags sy fname sz flags w =
     (let w1 = logCall (Call_CreateWithFlags fname sz flags) w in
      case createFails sy fname of
        Some err \<Rightarrow> (Inl err, w1)
      | None \<Rightarrow>
          (Inr \<lparr>envFname = fname, envSize = sz, envFlags = flags, envData = Map.empty\<rparr>, w1))"

definition ubootenv_OpenWithFlags ::
    "sys \<Rightarrow> string \<Rightarrow> OpenFlags \<Rightarrow> world \<Rightarrow> (error + Env) \<times> world" where
  "ubootenv_OpenWithFlags sy fname flags w =
     (let w1 = logCall (Call_OpenWithFlags fname flags) w in
      case openFails sy fname of
        Some err \<Rightarrow> (Inl err, w1)
      | None \<Rightarrow>
          (case stores w fname of
             None \<Rightarrow> (Inl (SysError ''no such file or directory''), w1)
           | Some env \<Rightarrow> (Inr (env\<lparr>envFname := fname, envFlags := flags\<rparr>), w1)))"

definition Env_Save :: "sys \<Rightarrow> Env \<Rightarrow> world \<Rightarrow> error option \<times> world" where
  "Env_Save sy env w =
     (let w1 = logCall (Call_Save (envFname env)) w in
      case saveFails sy (envFname env) of
        Some err \<Rightarrow> (Some err, w1)
      | None \<Rightarrow> (None, w1\<lparr>stores := (stores w1)(envFname env \<mapsto> env)\<rparr>))"

text \<open>
  Modelled from the spec: the helpers of package \<open>bootloader\<close> and \<open>osutil\<close> that this
  file delegates to. Each is a logged call whose answer the parameter gives.
\<close>

definition genericInstallBootConfig ::
    "sys \<Rightarrow> string \<Rightarrow> string \<Rightarrow> world \<Rightarrow> error option \<times> world" where
  "genericInstallBootConfig sy gadgetFile systemFile w =
     (installFails sy gadgetFile systemFile,
      logCall (Call_genericInstallBootConfig gadgetFile systemFile) w)"

definition osutil_FileExists :: "sys \<Rightarrow> string \<Rightarrow> world \<Rightarrow> bool \<times> world" where
  "osutil_FileExists sy p w = (fileExists sy p, logCall (Call_FileExists p) w)"

definition extractKernelAssetsToBootDir ::
    "sys \<Rightarrow> string \<Rightarrow> Container \<Rightarrow> string list \<Rightarrow> world \<Rightarrow> error option \<times> world" where
  "extractKernelAssetsToBootDir sy dstDir snapf assets w =
     (extractFails sy dstDir, logCall (Call_extractKernelAssetsToBootDir dstDir snapf assets) w)"

definition removeKernelAssetsFromBootDir ::
    "sys \<Rightarrow> string \<Rightarrow> PlaceInfo \<Rightarrow> world \<Rightarrow> error option \<times> world" where
  "removeKernelAssetsFromBootDir sy d s w =
     (removeFails sy d, logCall (Call_removeKernelAssetsFromBootDir d s) w)"

section \<open>Store creation and opening, per variant\<close>

definition ubootRedundEnv_createEnv ::
    "sys \<Rightarrow> string \<Rightarrow> int \<Rightarrow> world \<Rightarrow> (error + Env) \<times> world" where
  "ubootRedundEnv_createEnv sy fname sz w = ubootenv_Create sy fname sz w"

definition ubootRedundEnv_openEnvWithFlags ::
    "sys \<Rightarrow> string \<Rightarrow> OpenFlags \<Rightarrow> world \<Rightarrow> (error + Env) \<times> world" where
  "ubootRedundEnv_openEnvWithFlags sy fname flags w = ubootenv_OpenWithFlags sy fname flags w"

definition ubootNoRedundEnv_createEnv ::
    "sys \<Rightarrow> string \<Rightarrow> int \<Rightarrow> world \<Rightarrow> (error + Env) \<times> world" where
  "ubootNoRedundEnv_createEnv sy fname sz w =
     ubootenv_CreateWithFlags sy fname sz {OpenNoRedundEnv} w"

definition ubootNoRedundEnv_openEnvWithFlags ::
    "sys \<Rightarrow> string \<Rightarrow> OpenFlags \<Rightarrow> world \<Rightarrow> (error + Env) \<times> world" where
  "ubootNoRedundEnv_openEnvWithFlags sy fname flags w =
     ubootenv_OpenWithFlags sy fname (flags \<union> {OpenNoRedundEnv}) w"

fun createEnv :: "sys \<Rightarrow> ubootCommon \<Rightarrow> string \<Rightarrow> int \<Rightarrow> world \<Rightarrow> (error + Env) \<times> world" where
  "createEnv sy (ubootRedundEnv b) fname sz w = ubootRedundEnv_createEnv sy fname sz w"
| "createEnv sy (ubootNoRedundEnv b) fname sz w = ubootNoRedundEnv_createEnv sy fname sz w"

fun openEnvWithFlags ::
    "sys \<Rightarrow> ubootCommon \<Rightarrow> string \<Rightarrow> OpenFlags \<Rightarrow> world \<Rightarrow> (error + Env) \<times> world" where
  "openEnvWithFlags sy (ubootRedundEnv b) fname flags w =
     ubootRedundEnv_openEnvWithFlags sy fname flags w"
| "openEnvWithFlags sy (ubootNoRedundEnv b) fname flags w =
     ubootNoRedundEnv_openEnvWithFlags sy fname flags w"

section \<open>The facade \<open>uboot\<close>\<close>

text \<open>
  A method with a pointer receiver that changes the receiver returns the new receiver
  beside its result; every method returns the new world. The permission \<open>0755\<close> is 493.
\<close>

definition InstallBootConfig ::
    "sys \<Rightarrow> string \<Rightarrow> Options option \<Rightarrow> uboot \<Rightarrow> world \<Rightarrow> error option result \<times> uboot \<times> world" where
  "InstallBootConfig sy gadgetDir blOpts u w =
     (let gadgetFile = Join [gadgetDir, Name u @ ''.conf''] in
      case os_Stat sy gadgetFile w of
        (Inl err, w1) \<Rightarrow> (Return (Some err), u, w1)
      | (Inr st_Size, w1) \<Rightarrow>
          if st_Size = 0 then
            (let u1 = processBlOpts blOpts u in
             case envFile u1 of
               Panic msg \<Rightarrow> (Panic msg, u1, w1)
             | Return f \<Rightarrow>
                 (case os_MkdirAll sy (Dir f) 493 w1 of
                    (Some err, w2) \<Rightarrow> (Return (Some err), u1, w2)
                  | (None, w2) \<Rightarrow>
                      (case envFile u1 of
                         Panic msg \<Rightarrow> (Panic msg, u1, w2)
                       | Return f' \<Rightarrow>
                           (case createEnv sy u1 f' 4096 w2 of
                              (Inl err, w3) \<Rightarrow> (Return (Some err), u1, w3)
                            | (Inr env, w3) \<Rightarrow>
                                (case Env_Save sy env w3 of
                                   (Some err, w4) \<Rightarrow> (Return None, u1, w4)
                                 | (None, w4) \<Rightarrow> (Return None, u1, w4))))))
          else
            (let u1 = setDefaults u in
             if (case blOpts of None \<Rightarrow> False | Some opts \<Rightarrow> Role opts = RoleRecovery) then
               (Return (Some (Errorf ''non-empty uboot.env not supported on UC20+ yet'')), u1, w1)
             else
               (case envFile u1 of
                  Panic msg \<Rightarrow> (Panic msg, u1, w1)
                | Return systemFile \<Rightarrow>
                    (case genericInstallBootConfig sy gadgetFile systemFile w1 of
                       (r, w2) \<Rightarrow> (Return r, u1, w2)))))"

definition Present :: "sys \<Rightarrow> uboot \<Rightarrow> world \<Rightarrow> (bool \<times> error option) result \<times> world" where
  "Present sy u w =
     (case envFile u of
        Panic msg \<Rightarrow> (Panic msg, w)
      | Return f \<Rightarrow>
          (case osutil_FileExists sy f w of
             (b, w1) \<Rightarrow> (Return (b, None), w1)))"

text \<open>
  The loop of \<open>SetBootVars\<close> over the map \<open>values\<close>, given as the list of its entries in
  the order the \<open>range\<close> visits them (a Go map holds every key once).
\<close>

fun setLoop :: "(string \<times> string) list \<Rightarrow> Env \<Rightarrow> bool \<Rightarrow> Env \<times> bool" where
  "setLoop [] env dirty = (env, dirty)"
| "setLoop ((k, v) # kvs) env dirty =
     (if Env_Get env k = v then setLoop kvs env dirty
      else setLoop kvs (Env_Set env k v) True)"

definition SetBootVars ::
    "sys \<Rightarrow> uboot \<Rightarrow> (string \<times> string) list \<Rightarrow> world \<Rightarrow> error option result \<times> world" where
  "SetBootVars sy u vals w =
     (case envFile u of
        Panic msg \<Rightarrow> (Panic msg, w)
      | Return f \<Rightarrow>
          (case openEnvWithFlags sy u f {OpenBestEffort} w of
             (Inl err, w1) \<Rightarrow> (Return (Some err), w1)
           | (Inr env, w1) \<Rightarrow>
               (case setLoop vals env False of
                  (env', dirty) \<Rightarrow>
                    if dirty then
                      (case Env_Save sy env' w1 of (r, w2) \<Rightarrow> (Return r, w2))
                    else (Return None, w1))))"

text \<open>The loop of \<open>GetBootVars\<close> over the requested names.\<close>

fun getLoop :: "string list \<Rightarrow> Env \<Rightarrow> (string \<rightharpoonup> string) \<Rightarrow> (string \<rightharpoonup> string)" where
  "getLoop [] env out = out"
| "getLoop (n # ns) env out = getLoop ns env (out(n \<mapsto> Env_Get env n))"

definition GetBootVars ::
    "sys \<Rightarrow> uboot \<Rightarrow> string list \<Rightarrow> world \<Rightarrow> (error + (string \<rightharpoonup> string)) result \<times> world" where
  "GetBootVars sy u names w =
     (let out = Map.empty in
      case envFile u of
        Panic msg \<Rightarrow> (Panic msg, w)
      | Return f \<Rightarrow>
          (case openEnvWithFlags sy u f {OpenBestEffort} w of
             (Inl err, w1) \<Rightarrow> (Return (Inl err), w1)
           | (Inr env, w1) \<Rightarrow> (Return (Inr (getLoop names env out)), w1)))"

definition ExtractKernelAssets ::
    "sys \<Rightarrow> uboot \<Rightarrow> PlaceInfo \<Rightarrow> Container \<Rightarrow> world \<Rightarrow> error option result \<times> world" where
  "ExtractKernelAssets sy u s snapf w =
     (case dir u of
        Panic msg \<Rightarrow> (Panic msg, w)
      | Return d \<Rightarrow>
          (let dstDir = Join [d, Filename s];
               assets = [''kernel.img'', ''initrd.img'', ''dtbs/*'']
           in case extractKernelAssetsToBootDir sy dstDir snapf assets w of
                (r, w1) \<Rightarrow> (Return r, w1)))"

definition ExtractRecoveryKernelAssets ::
    "sys \<Rightarrow> uboot \<Rightarrow> string \<Rightarrow> PlaceInfo \<Rightarrow> Container \<Rightarrow> world \<Rightarrow> error option result \<times> world" where
  "ExtractRecoveryKernelAssets sy u recoverySystemDir s snapf w =
     (if recoverySystemDir = [] then
        (Return (Some (Errorf ''internal error: recoverySystemDir unset'')), w)
      else
        (let recoverySystemUbootKernelAssetsDir = Join [rootDir u, recoverySystemDir, ''kernel''];
             assets = [''kernel.img'', ''initrd.img'', ''dtbs/*'']
         in case extractKernelAssetsToBootDir sy recoverySystemUbootKernelAssetsDir snapf assets w of
              (r, w1) \<Rightarrow> (Return r, w1)))"

definition RemoveKernelAssets ::
    "sys \<Rightarrow> uboot \<Rightarrow> PlaceInfo \<Rightarrow> world \<Rightarrow> error option result \<times> world" where
  "RemoveKernelAssets sy u s w =
     (case dir u of
        Panic msg \<Rightarrow> (Panic msg, w)
      | Return d \<Rightarrow>
          (case removeKernelAssetsFromBootDir sy d s w of
             (r, w1) \<Rightarrow> (Return r, w1)))"

section \<open>The spec's tables\<close>

text \<open>
  The precedence table of the spec (section 4.2) and its list of resolved paths
  (section 6), written after the spec's words, to be compared with what the code
  computes.
\<close>

datatype Variant = Redundant | NonRedundant

fun variantOf :: "ubootCommon \<Rightarrow> Variant" where
  "variantOf (ubootRedundEnv b) = Redundant"
| "variantOf (ubootNoRedundEnv b) = NonRedundant"

fun spec_defaultBasedir :: "Variant \<Rightarrow> string" where
  "spec_defaultBasedir Redundant = ''/boot/uboot/''"
| "spec_defaultBasedir NonRedundant = ''/boot/uboot-nr/''"

fun spec_directBasedir :: "Variant \<Rightarrow> string" where
  "spec_directBasedir Redundant = ''/uboot/ubuntu/''"
| "spec_directBasedir NonRedundant = ''/uboot-nr/ubuntu/''"

definition spec_resolve :: "Variant \<Rightarrow> Options option \<Rightarrow> string \<times> string" where
  "spec_resolve v blOpts =
     (case blOpts of
        None \<Rightarrow> (spec_defaultBasedir v, ''uboot.env'')
      | Some opts \<Rightarrow>
          if Role opts = RoleRecovery \<or> NoSlashBoot opts then (spec_directBasedir v, ''boot.sel'')
          else if Role opts = RoleRunMode then (spec_defaultBasedir v, ''boot.sel'')
          else (spec_defaultBasedir v, ''uboot.env''))"

fun spec_defaultPath :: "Variant \<Rightarrow> string" where
  "spec_defaultPath Redundant = ''/boot/uboot/uboot.env''"
| "spec_defaultPath NonRedundant = ''/boot/uboot-nr/uboot.env''"

fun spec_directPath :: "Variant \<Rightarrow> string" where
  "spec_directPath Redundant = ''/uboot/ubuntu/boot.sel''"
| "spec_directPath NonRedundant = ''/uboot-nr/ubuntu/boot.sel''"

fun spec_runModePath :: "Variant \<Rightarrow> string" where
  "spec_runModePath Redundant = ''/boot/uboot/boot.sel''"
| "spec_runModePath NonRedundant = ''/boot/uboot-nr/boot.sel''"

definition spec_resolvedPath :: "Variant \<Rightarrow> Options option \<Rightarrow> string" where
  "spec_resolvedPath v blOpts =
     (case blOpts of
        None \<Rightarrow> spec_defaultPath v
      | Some opts \<Rightarrow>
          if Role opts = RoleRecovery \<or> NoSlashBoot opts then spec_directPath v
          else if Role opts = RoleRunMode then spec_runModePath v
          else spec_defaultPath v)"

text \<open>A path under the root directory \<open>r\<close>: the root \<open>/\<close> adds nothing in front.\<close>

definition underRoot :: "string \<Rightarrow> string \<Rightarrow> string" where
  "underRoot r p = (if r = ''/'' then p else r @ p)"

section \<open>Counting calls\<close>

fun isSave :: "call \<Rightarrow> bool" where
  "isSave (Call_Save f) = True"
| "isSave c = False"

fun isGenericInstall :: "call \<Rightarrow> bool" where
  "isGenericInstall (Call_genericInstallBootConfig g f) = True"
| "isGenericInstall c = False"

definition saveCount :: "call list \<Rightarrow> nat" where
  "saveCount cs = length (filter isSave cs)"

section \<open>Example runs\<close>

text \<open>
  A system where the gadget directory \<open>/g\<close> holds an empty \<open>uboot.conf\<close> and a
  \<open>uboot-nr.conf\<close> of 131072 bytes, and where no call fails; and the same system with a
  store that cannot be saved.
\<close>

definition exampleSys :: sys where
  "exampleSys =
     \<lparr>stat = (\<lambda>p. if p = ''/g/uboot.conf'' then Inr 0
                   else if p = ''/g/uboot-nr.conf'' then Inr 131072
                   else Inl (SysError ''no such file or directory'')),
      mkdirAll = (\<lambda>p. None),
      createFails = (\<lambda>p. None),
      openFails = (\<lambda>p. None),
      saveFails = (\<lambda>p. None),
      installFails = (\<lambda>g f. None),
      fileExists = (\<lambda>p. p = ''/r/boot/uboot/boot.sel''),
      extractFails = (\<lambda>p. None),
      removeFails = (\<lambda>p. None)\<rparr>"

definition saveFailsSys :: sys where
  "saveFailsSys = exampleSys\<lparr>saveFails := (\<lambda>p. Some (SysError ''input/output error''))\<rparr>"

definition emptyWorld :: world where
  "emptyWorld = \<lparr>stores = Map.empty, trace = []\<rparr>"

definition runModeOpts :: Options where
  "runModeOpts = \<lparr>Role = RoleRunMode, NoSlashBoot = False\<rparr>"

definition recoveryOpts :: Options where
  "recoveryOpts = \<lparr>Role = RoleRecovery, NoSlashBoot = False\<rparr>"

text \<open>The world of the spec's end-to-end scenario: an empty store at the resolved path.\<close>

definition storeWorld :: world where
  "storeWorld =
     \<lparr>stores = [''/r/boot/uboot/boot.sel'' \<mapsto>
         \<lparr>envFname = ''/r/boot/uboot/boot.sel'', envSize = 4096, envFlags = {},
          envData = Map.empty\<rparr>],
      trace = []\<rparr>"

text \<open>
  The flags a variant opens a store with: the caller's, and for the variant without
  redundancy the single-copy flag as well.
\<close>

definition variantFlags :: "ubootCommon \<Rightarrow> OpenFlags \<Rightarrow> OpenFlags" where
  "variantFlags u flags = (case u of ubootRedundEnv b \<Rightarrow> flags | ubootNoRedundEnv b \<Rightarrow> flags \<union> {OpenNoRedundEnv})"

text \<open>The same world after \<open>snap_mode\<close> has been set to \<open>try\<close>.\<close>

definition triedWorld :: world where
  "triedWorld =
     \<lparr>stores = [''/r/boot/uboot/boot.sel'' \<mapsto>
         \<lparr>envFname = ''/r/boot/uboot/boot.sel'', envSize = 4096, envFlags = {},
          envData = [''snap_mode'' \<mapsto> ''try'']\<rparr>],
      trace = []\<rparr>"

section \<open>Write minimisation\<close>

text \<open>
  The entries of \<open>values\<close> whose value differs from what the store holds, and the store
  after setting a list of entries.
\<close>

definition changedEntries :: "Env \<Rightarrow> (string \<times> string) list \<Rightarrow> (string \<times> string) list" where
  "changedEntries env vals = filter (\<lambda>(k, v). Env_Get env k \<noteq> v) vals"

definition setAll :: "Env \<Rightarrow> (string \<times> string) list \<Rightarrow> Env" where
  "setAll env kvs = foldl (\<lambda>e (k, v). Env_Set e k v) env kvs"

section \<open>Path lemmas\<close>

lemma splitPath_nonempty: "splitPath p \<noteq> []"
  by (induction p) (auto split: list.splits)

lemma splitPath_append: "splitPath (a @ CHR ''/'' # b) = splitPath a @ splitPath b"
proof (induction a)
  case Nil
  show ?case by simp
next
  case (Cons c a)
  obtain y ys where sp: "splitPath a = y # ys"
    using splitPath_nonempty [of a] by (cases "splitPath a") auto
  show ?case using Cons sp by simp
qed

lemma strings_Join_append:
  "xs \<noteq> [] \<Longrightarrow> ys \<noteq> [] \<Longrightarrow>
   strings_Join (xs @ ys) sep = strings_Join xs sep @ sep @ strings_Join ys sep"
proof (induction xs sep rule: strings_Join.induct)
  case (1 sep)
  then show ?case by simp
next
  case (2 x sep)
  then show ?case by (cases ys) auto
next
  case (3 x y ys' sep)
  then show ?case by simp
qed

lemma Clean_nonempty: "Clean p \<noteq> []"
  by (simp add: Clean_def Let_def)

lemma Clean_append_plain:
  assumes cl: "Clean r = r"
    and nroot: "r \<noteq> ''/''" and ndot: "r \<noteq> ''.''"
    and plain: "\<And>rt st. foldl (cleanElem rt) st (splitPath s) = rev es @ st"
    and es: "es \<noteq> []"
  shows "Clean (r @ CHR ''/'' # s) = r @ CHR ''/'' # strings_Join es ''/''"
proof -
  have rne: "r \<noteq> []" using cl Clean_nonempty [of r] by auto
  define rt where "rt = (hd r = CHR ''/'')"
  define st where "st = foldl (cleanElem rt) [] (splitPath r)"
  define pre where "pre = (if rt then ''/'' else [])"
  have clr: "Clean r = (if pre @ strings_Join (rev st) ''/'' = [] then ''.'' else pre @ strings_Join (rev st) ''/'')"
    using rne by (simp add: Clean_def Let_def rt_def st_def pre_def)
  have body: "pre @ strings_Join (rev st) ''/'' = r"
    using clr cl ndot by (auto split: if_splits)
  have stne: "st \<noteq> []"
  proof
    assume "st = []"
    then have "pre = r" using body by simp
    then show False using nroot rne by (auto simp: pre_def split: if_splits)
  qed
  have hd': "hd (r @ CHR ''/'' # s) = hd r" using rne by simp
  have fl: "foldl (cleanElem rt) [] (splitPath (r @ CHR ''/'' # s)) = rev es @ st"
    by (simp add: splitPath_append plain st_def)
  have "Clean (r @ CHR ''/'' # s) = pre @ strings_Join (rev st @ es) ''/''"
    using rne stne es
    by (simp add: Clean_def Let_def hd' fl rt_def [symmetric] pre_def [symmetric] strings_Join_append)
  also have "\<dots> = r @ CHR ''/'' # strings_Join es ''/''"
    using stne es body by (simp add: strings_Join_append)
  finally show ?thesis .
qed

lemma Join2: "a \<noteq> [] \<Longrightarrow> Join [a, b] = Clean (a @ CHR ''/'' # b)"
  by (simp add: Join_def)

lemma envFile_plain:
  assumes cl: "Clean r = r" and ndot: "r \<noteq> ''.''" and nroot: "r \<noteq> ''/''"
    and p1: "\<And>rt st. foldl (cleanElem rt) st (splitPath bd) = rev es @ st"
    and e1: "es \<noteq> []"
    and p2: "\<And>rt st. foldl (cleanElem rt) st (splitPath (strings_Join es ''/'' @ CHR ''/'' # fn)) = rev es' @ st"
    and e2: "es' \<noteq> []"
  shows "ubootBase_envFile \<lparr>rootdir = r, basedir = bd, ubootEnvFileName = fn\<rparr>
         = Return (r @ CHR ''/'' # strings_Join es' ''/'')"
proof -
  have rne: "r \<noteq> []" using cl Clean_nonempty [of r] by auto
  have d: "Join [r, bd] = r @ CHR ''/'' # strings_Join es ''/''"
    using Clean_append_plain [OF cl nroot ndot p1 e1] rne by (simp add: Join2)
  have "Join [r @ CHR ''/'' # strings_Join es ''/'', fn]
        = Clean (r @ CHR ''/'' # (strings_Join es ''/'' @ CHR ''/'' # fn))"
    by (simp add: Join2)
  also have "\<dots> = r @ CHR ''/'' # strings_Join es' ''/''"
    by (rule Clean_append_plain [OF cl nroot ndot p2 e2])
  finally show ?thesis using rne d by (simp add: ubootBase_envFile_def ubootBase_dir_def)
qed

lemma envFile_table:
  assumes cl: "Clean r = r" and ndot: "r \<noteq> ''.''" and nroot: "r \<noteq> ''/''"
  shows "ubootBase_envFile \<lparr>rootdir = r, basedir = ''/boot/uboot/'', ubootEnvFileName = ''uboot.env''\<rparr> = Return (r @ ''/boot/uboot/uboot.env'')"
    and "ubootBase_envFile \<lparr>rootdir = r, basedir = ''/boot/uboot/'', ubootEnvFileName = ''boot.sel''\<rparr> = Return (r @ ''/boot/uboot/boot.sel'')"
    and "ubootBase_envFile \<lparr>rootdir = r, basedir = ''/uboot/ubuntu/'', ubootEnvFileName = ''boot.sel''\<rparr> = Return (r @ ''/uboot/ubuntu/boot.sel'')"
    and "ubootBase_envFile \<lparr>rootdir = r, basedir = ''/boot/uboot-nr/'', ubootEnvFileName = ''uboot.env''\<rparr> = Return (r @ ''/boot/uboot-nr/uboot.env'')"
    and "ubootBase_envFile \<lparr>rootdir = r, basedir = ''/boot/uboot-nr/'', ubootEnvFileName = ''boot.sel''\<rparr> = Return (r @ ''/boot/uboot-nr/boot.sel'')"
    and "ubootBase_envFile \<lparr>rootdir = r, basedir = ''/uboot-nr/ubuntu/'', ubootEnvFileName = ''boot.sel''\<rparr> = Return (r @ ''/uboot-nr/ubuntu/boot.sel'')"
proof -
  show "ubootBase_envFile \<lparr>rootdir = r, basedir = ''/boot/uboot/'', ubootEnvFileName = ''uboot.env''\<rparr> = Return (r @ ''/boot/uboot/uboot.env'')"
    using envFile_plain [OF cl ndot nroot, where bd = "''/boot/uboot/''" and es = "[''boot'', ''uboot'']"
        and fn = "''uboot.env''" and es' = "[''boot'', ''uboot'', ''uboot.env'']"]
    by (simp add: cleanElem_def)
  show "ubootBase_envFile \<lparr>rootdir = r, basedir = ''/boot/uboot/'', ubootEnvFileName = ''boot.sel''\<rparr> = Return (r @ ''/boot/uboot/boot.sel'')"
    using envFile_plain [OF cl ndot nroot, where bd = "''/boot/uboot/''" and es = "[''boot'', ''uboot'']"
        and fn = "''boot.sel''" and es' = "[''boot'', ''uboot'', ''boot.sel'']"]
    by (simp add: cleanElem_def)
  show "ubootBase_envFile \<lparr>rootdir = r, basedir = ''/uboot/ubuntu/'', ubootEnvFileName = ''boot.sel''\<rparr> = Return (r @ ''/uboot/ubuntu/boot.sel'')"
    using envFile_plain [OF cl ndot nroot, where bd = "''/uboot/ubuntu/''" and es = "[''uboot'', ''ubuntu'']"
        and fn = "''boot.sel''" and es' = "[''uboot'', ''ubuntu'', ''boot.sel'']"]
    by (simp add: cleanElem_def)
  show "ubootBase_envFile \<lparr>rootdir = r, basedir = ''/boot/uboot-nr/'', ubootEnvFileName = ''uboot.env''\<rparr> = Return (r @ ''/boot/uboot-nr/uboot.env'')"
    using envFile_plain [OF cl ndot nroot, where bd = "''/boot/uboot-nr/''" and es = "[''boot'', ''uboot-nr'']"
        and fn = "''uboot.env''" and es' = "[''boot'', ''uboot-nr'', ''uboot.env'']"]
    by (simp add: cleanElem_def)
  show "ubootBase_envFile \<lparr>rootdir = r, basedir = ''/boot/uboot-nr/'', ubootEnvFileName = ''boot.sel''\<rparr> = Return (r @ ''/boot/uboot-nr/boot.sel'')"
    using envFile_plain [OF cl ndot nroot, where bd = "''/boot/uboot-nr/''" and es = "[''boot'', ''uboot-nr'']"
        and fn = "''boot.sel''" and es' = "[''boot'', ''uboot-nr'', ''boot.sel'']"]
    by (simp add: cleanElem_def)
  show "ubootBase_envFile \<lparr>rootdir = r, basedir = ''/uboot-nr/ubuntu/'', ubootEnvFileName = ''boot.sel''\<rparr> = Return (r @ ''/uboot-nr/ubuntu/boot.sel'')"
    using envFile_plain [OF cl ndot nroot, where bd = "''/uboot-nr/ubuntu/''" and es = "[''uboot-nr'', ''ubuntu'']"
        and fn = "''boot.sel''" and es' = "[''uboot-nr'', ''ubuntu'', ''boot.sel'']"]
    by (simp add: cleanElem_def)
qed

lemma envFile_table_root:
  shows "ubootBase_envFile \<lparr>rootdir = ''/'', basedir = ''/boot/uboot/'', ubootEnvFileName = ''uboot.env''\<rparr> = Return ''/boot/uboot/uboot.env''"
    and "ubootBase_envFile \<lparr>rootdir = ''/'', basedir = ''/boot/uboot/'', ubootEnvFileName = ''boot.sel''\<rparr> = Return ''/boot/uboot/boot.sel''"
    and "ubootBase_envFile \<lparr>rootdir = ''/'', basedir = ''/uboot/ubuntu/'', ubootEnvFileName = ''boot.sel''\<rparr> = Return ''/uboot/ubuntu/boot.sel''"
    and "ubootBase_envFile \<lparr>rootdir = ''/'', basedir = ''/boot/uboot-nr/'', ubootEnvFileName = ''uboot.env''\<rparr> = Return ''/boot/uboot-nr/uboot.env''"
    and "ubootBase_envFile \<lparr>rootdir = ''/'', basedir = ''/boot/uboot-nr/'', ubootEnvFileName = ''boot.sel''\<rparr> = Return ''/boot/uboot-nr/boot.sel''"
    and "ubootBase_envFile \<lparr>rootdir = ''/'', basedir = ''/uboot-nr/ubuntu/'', ubootEnvFileName = ''boot.sel''\<rparr> = Return ''/uboot-nr/ubuntu/boot.sel''"
  by (simp_all add: ubootBase_envFile_def ubootBase_dir_def Join_def Clean_def cleanElem_def)

lemma envFile_resolved:
  assumes cl: "Clean r = r" and ndot: "r \<noteq> ''.''"
    and bd: "basedir b = fst (spec_resolve v blOpts)"
    and fn: "ubootEnvFileName b = snd (spec_resolve v blOpts)"
    and rd: "rootdir b = r"
  shows "ubootBase_envFile b = Return (underRoot r (spec_resolvedPath v blOpts))"
proof -
  have b: "b = \<lparr>rootdir = r, basedir = fst (spec_resolve v blOpts),
                 ubootEnvFileName = snd (spec_resolve v blOpts)\<rparr>"
    using bd fn rd by simp
  show ?thesis
  proof (cases "r = ''/''")
    case True
    show ?thesis
      unfolding b True underRoot_def
      by (cases v; cases blOpts)
         (simp_all add: spec_resolve_def spec_resolvedPath_def envFile_table_root)
  next
    case False
    show ?thesis
      unfolding b underRoot_def
      using False envFile_table [OF cl ndot False]
      by (cases v; cases blOpts)
         (simp_all add: spec_resolve_def spec_resolvedPath_def)
  qed
qed

lemma processBlOpts_table:
  "base (processBlOpts blOpts (setDefaults u)) =
     (base u)\<lparr>basedir := fst (spec_resolve (variantOf u) blOpts),
              ubootEnvFileName := snd (spec_resolve (variantOf u) blOpts)\<rparr>"
  by (cases u; cases blOpts)
     (simp_all add: spec_resolve_def ubootRedundEnv_setDefaults_def ubootNoRedundEnv_setDefaults_def
        ubootRedundEnv_processBlOpts_def ubootNoRedundEnv_processBlOpts_def Let_def)

section \<open>Lemmas on the loops\<close>

lemma Env_Get_Set: "Env_Get (Env_Set e k v) k' = (if k' = k then v else Env_Get e k')"
  by (simp add: Env_Get_def Env_Set_def)

lemma setLoop_filter:
  "distinct (map fst kvs) \<Longrightarrow> (\<forall>k \<in> fst ` set kvs. Env_Get e k = Env_Get env k) \<Longrightarrow>
   setLoop kvs e d =
     (foldl (\<lambda>e (k, v). Env_Set e k v) e (filter (\<lambda>(k, v). Env_Get env k \<noteq> v) kvs),
      d \<or> filter (\<lambda>(k, v). Env_Get env k \<noteq> v) kvs \<noteq> [])"
proof (induction kvs arbitrary: e d)
  case Nil
  show ?case by simp
next
  case (Cons kv kvs)
  obtain k v where kv: "kv = (k, v)" by (cases kv)
  have dist: "distinct (map fst kvs)" and knot: "k \<notin> fst ` set kvs"
    using Cons.prems(1) kv by auto
  have same: "Env_Get e k = Env_Get env k" using Cons.prems(2) kv by simp
  have rest: "\<forall>k' \<in> fst ` set kvs. Env_Get e k' = Env_Get env k'"
    using Cons.prems(2) by simp
  show ?case
  proof (cases "Env_Get env k = v")
    case True
    then show ?thesis using Cons.IH [OF dist rest, of d] same kv by simp
  next
    case False
    have rest': "\<forall>k' \<in> fst ` set kvs. Env_Get (Env_Set e k v) k' = Env_Get env k'"
      using rest knot by (auto simp: Env_Get_Set)
    show ?thesis using Cons.IH [OF dist rest', of True] same kv False by simp
  qed
qed

lemma setLoop_changed:
  "distinct (map fst vals) \<Longrightarrow>
   setLoop vals env False = (setAll env (changedEntries env vals), changedEntries env vals \<noteq> [])"
  using setLoop_filter [of vals env env False] by (simp add: setAll_def changedEntries_def)

lemma setAll_fields:
  "envFname (setAll e kvs) = envFname e \<and> envSize (setAll e kvs) = envSize e \<and>
   envFlags (setAll e kvs) = envFlags e"
  unfolding setAll_def by (induction kvs arbitrary: e) (auto simp: Env_Set_def)

lemma setAll_Get:
  "distinct (map fst kvs) \<Longrightarrow>
   Env_Get (setAll e kvs) k = (case map_of kvs k of None \<Rightarrow> Env_Get e k | Some v \<Rightarrow> v)"
  unfolding setAll_def
proof (induction kvs arbitrary: e)
  case Nil
  show ?case by simp
next
  case (Cons kv kvs)
  obtain k' v' where kv: "kv = (k', v')" by (cases kv)
  have dist: "distinct (map fst kvs)" and knot: "k' \<notin> fst ` set kvs"
    using Cons.prems kv by auto
  have none: "map_of kvs k' = None" using knot by (simp add: map_of_eq_None_iff)
  show ?case using Cons.IH [OF dist, of "Env_Set e k' v'"] kv none
    by (auto simp: Env_Get_Set split: option.splits)
qed

lemma changed_after_setAll:
  assumes dist: "distinct (map fst vals)"
  shows "changedEntries (setAll env (changedEntries env vals)) vals = []"
proof -
  have dc: "distinct (map fst (changedEntries env vals))"
    using dist unfolding changedEntries_def by (simp add: distinct_map_filter)
  have "Env_Get (setAll env (changedEntries env vals)) k = v" if kv: "(k, v) \<in> set vals" for k v
  proof (cases "Env_Get env k = v")
    case True
    have "map_of (changedEntries env vals) k = None"
    proof (rule ccontr)
      assume "map_of (changedEntries env vals) k \<noteq> None"
      then obtain v' where "map_of (changedEntries env vals) k = Some v'" by auto
      then have "(k, v') \<in> set (changedEntries env vals)" by (rule map_of_SomeD)
      then have "(k, v') \<in> set vals" and ne: "Env_Get env k \<noteq> v'"
        by (auto simp: changedEntries_def)
      then have "v' = v" using dist kv by (meson eq_key_imp_eq_value)
      then show False using ne True by simp
    qed
    then show ?thesis using True by (simp add: setAll_Get [OF dc])
  next
    case False
    then have "(k, v) \<in> set (changedEntries env vals)" using kv by (simp add: changedEntries_def)
    then have "map_of (changedEntries env vals) k = Some v" using dc by simp
    then show ?thesis by (simp add: setAll_Get [OF dc])
  qed
  then show ?thesis by (auto simp: changedEntries_def filter_empty_conv)
qed

lemma changedEntries_cong:
  "(\<And>k. Env_Get e k = Env_Get e' k) \<Longrightarrow> changedEntries e vals = changedEntries e' vals"
  by (simp add: changedEntries_def)

lemma getLoop_eq:
  "getLoop ns env out = (\<lambda>n. if n \<in> set ns then Some (Env_Get env n) else out n)"
  by (induction ns arbitrary: out) (auto simp: fun_eq_iff)

lemma base_newUboot:
  "base (newUboot r blOpts) =
     \<lparr>rootdir = r, basedir = fst (spec_resolve Redundant blOpts),
      ubootEnvFileName = snd (spec_resolve Redundant blOpts)\<rparr>"
  using processBlOpts_table [of blOpts "ubootRedundEnv \<lparr>rootdir = r, basedir = [], ubootEnvFileName = []\<rparr>"]
  by (simp add: newUboot_def Let_def)

lemma base_newUbootNoRedundEnv:
  "base (newUbootNoRedundEnv r blOpts) =
     \<lparr>rootdir = r, basedir = fst (spec_resolve NonRedundant blOpts),
      ubootEnvFileName = snd (spec_resolve NonRedundant blOpts)\<rparr>"
  using processBlOpts_table [of blOpts "ubootNoRedundEnv \<lparr>rootdir = r, basedir = [], ubootEnvFileName = []\<rparr>"]
  by (simp add: newUbootNoRedundEnv_def Let_def)

lemma Clean_slash_r: "Clean ''/r'' = ''/r''"
  by (simp add: Clean_def cleanElem_def)

section \<open>Lemmas on the facade\<close>

lemma newCalls_simps:
  "newCalls w w = []"
  "newCalls w (logCall c w) = [c]"
  "newCalls w (logCall c2 (logCall c1 w)) = [c1, c2]"
  "newCalls w (logCall c3 (logCall c2 (logCall c1 w))) = [c1, c2, c3]"
  "newCalls w (logCall c4 (logCall c3 (logCall c2 (logCall c1 w)))) = [c1, c2, c3, c4]"
  "newCalls w (w'\<lparr>stores := s\<rparr>) = newCalls w w'"
  by (simp_all add: newCalls_def logCall_def)

lemma stores_logCall: "stores (logCall c w) = stores w"
  by (simp add: logCall_def)

lemmas collaborator_defs =
  os_Stat_def os_MkdirAll_def ubootenv_Create_def ubootenv_CreateWithFlags_def
  ubootenv_OpenWithFlags_def Env_Save_def genericInstallBootConfig_def osutil_FileExists_def
  extractKernelAssetsToBootDir_def removeKernelAssetsFromBootDir_def
  ubootRedundEnv_createEnv_def ubootNoRedundEnv_createEnv_def
  ubootRedundEnv_openEnvWithFlags_def ubootNoRedundEnv_openEnvWithFlags_def

lemma saveCount_simps:
  "saveCount [] = 0"
  "saveCount (Call_Save f # cs) = Suc (saveCount cs)"
  "saveCount (Call_OpenWithFlags f fl # cs) = saveCount cs"
  by (simp_all add: saveCount_def)

lemma open_success:
  assumes "openEnvWithFlags sy u f flags w = (Inr env, wo)"
  shows "\<exists>env0. openFails sy f = None \<and> stores w f = Some env0 \<and>
           env = env0\<lparr>envFname := f, envFlags := variantFlags u flags\<rparr> \<and>
           wo = logCall (Call_OpenWithFlags f (variantFlags u flags)) w"
  using assms
  by (cases u)
     (auto simp: collaborator_defs Let_def variantFlags_def split: option.splits)

lemma open_stored:
  assumes "openFails sy f = None" and "stores w f = Some env0"
  shows "openEnvWithFlags sy u f flags w =
           (Inr (env0\<lparr>envFname := f, envFlags := variantFlags u flags\<rparr>),
            logCall (Call_OpenWithFlags f (variantFlags u flags)) w)"
  using assms
  by (cases u) (auto simp: collaborator_defs Let_def variantFlags_def)

lemma SetBootVars_run:
  assumes ef: "envFile u = Return f" and dist: "distinct (map fst vals)"
    and op: "openEnvWithFlags sy u f {OpenBestEffort} w = (Inr env, wo)"
  shows "SetBootVars sy u vals w =
           (if changedEntries env vals = [] then (Return None, wo)
            else (Return (saveFails sy (envFname env)),
                  (case saveFails sy (envFname env) of
                     Some err \<Rightarrow> logCall (Call_Save (envFname env)) wo
                   | None \<Rightarrow> (logCall (Call_Save (envFname env)) wo)
                       \<lparr>stores := (stores wo)(envFname env \<mapsto> setAll env (changedEntries env vals))\<rparr>)))"
  using ef op setAll_fields [of env "changedEntries env vals"]
  by (auto simp: SetBootVars_def setLoop_changed [OF dist] Env_Save_def Let_def stores_logCall
        split: option.splits)

lemma envFile_setDefaults:
  assumes cl: "Clean r = r" and ndot: "r \<noteq> ''.''" and rd: "rootdir (base u) = r"
  shows "envFile (setDefaults u) = Return (underRoot r (spec_defaultPath (variantOf u)))"
proof -
  have "ubootBase_envFile (base (setDefaults u))
          = Return (underRoot r (spec_resolvedPath (variantOf u) None))"
    using rd
    by (intro envFile_resolved [OF cl ndot]; cases u)
       (simp_all add: spec_resolve_def ubootRedundEnv_setDefaults_def ubootNoRedundEnv_setDefaults_def)
  then show ?thesis by (simp add: envFile_def spec_resolvedPath_def)
qed

lemmas eval_defs =
  InstallBootConfig_def Let_def collaborator_defs Name_def newUboot_def newUbootNoRedundEnv_def
  envFile_def ubootBase_envFile_def ubootBase_dir_def rootDir_def ubootBase_rootDir_def
  Join_def Clean_def Dir_def cleanElem_def
  ubootRedundEnv_name_def ubootNoRedundEnv_name_def
  ubootRedundEnv_setDefaults_def ubootNoRedundEnv_setDefaults_def
  ubootRedundEnv_processBlOpts_def ubootNoRedundEnv_processBlOpts_def
  exampleSys_def saveFailsSys_def emptyWorld_def runModeOpts_def recoveryOpts_def
  logCall_def newCalls_def

lemma example_envFile:
  "envFile (newUboot ''/r'' (Some runModeOpts)) = Return ''/r/boot/uboot/boot.sel''"
  "envFile (newUboot ''/r'' None) = Return ''/r/boot/uboot/uboot.env''"
  by (simp_all add: eval_defs)

lemma example_open:
  "openEnvWithFlags exampleSys (newUboot ''/r'' (Some runModeOpts)) ''/r/boot/uboot/boot.sel''
       {OpenBestEffort} storeWorld =
     (Inr \<lparr>envFname = ''/r/boot/uboot/boot.sel'', envSize = 4096, envFlags = {OpenBestEffort},
           envData = Map.empty\<rparr>,
      logCall (Call_OpenWithFlags ''/r/boot/uboot/boot.sel'' {OpenBestEffort}) storeWorld)"
  "openEnvWithFlags exampleSys (newUboot ''/r'' (Some runModeOpts)) ''/r/boot/uboot/boot.sel''
       {OpenBestEffort} triedWorld =
     (Inr \<lparr>envFname = ''/r/boot/uboot/boot.sel'', envSize = 4096, envFlags = {OpenBestEffort},
           envData = [''snap_mode'' \<mapsto> ''try'']\<rparr>,
      logCall (Call_OpenWithFlags ''/r/boot/uboot/boot.sel'' {OpenBestEffort}) triedWorld)"
  by (simp_all add: eval_defs storeWorld_def triedWorld_def)

lemma example_stat:
  "stat exampleSys (Join [''/g'', Name (newUboot r blOpts) @ ''.conf'']) = Inr 0"
  "stat exampleSys (Join [''/g'', Name (newUbootNoRedundEnv r blOpts) @ ''.conf'']) = Inr 131072"
  "Join [''/g'', Name (newUboot r blOpts) @ ''.conf''] = ''/g/uboot.conf''"
  "Join [''/g'', Name (newUbootNoRedundEnv r blOpts) @ ''.conf''] = ''/g/uboot-nr.conf''"
  by (simp_all add: eval_defs)

section \<open>Claims\<close>

text \<open>
  C1. Option processing on top of the variant's defaults resolves base directory and
  file name exactly as the spec's precedence table says, for every \<open>Options\<close> value,
  \<open>nil\<close> included, and for both variants. For a root directory that is a cleaned path
  (other than \<open>.\<close>), the environment file of a bootloader built by either constructor is
  the root directory followed by the path the spec lists for that variant and those
  options.
\<close>

theorem processBlOpts_resolves_paths:
  "base (processBlOpts blOpts (setDefaults u)) =
     (base u)\<lparr>basedir := fst (spec_resolve (variantOf u) blOpts),
              ubootEnvFileName := snd (spec_resolve (variantOf u) blOpts)\<rparr> \<and>
   (Clean r = r \<and> r \<noteq> ''.'' \<longrightarrow>
      envFile (newUboot r blOpts) = Return (underRoot r (spec_resolvedPath Redundant blOpts)) \<and>
      envFile (newUbootNoRedundEnv r blOpts) =
        Return (underRoot r (spec_resolvedPath NonRedundant blOpts)))"
proof (intro conjI impI)
  show "base (processBlOpts blOpts (setDefaults u)) =
     (base u)\<lparr>basedir := fst (spec_resolve (variantOf u) blOpts),
              ubootEnvFileName := snd (spec_resolve (variantOf u) blOpts)\<rparr>"
    by (rule processBlOpts_table)
next
  assume r: "Clean r = r \<and> r \<noteq> ''.''"
  show "envFile (newUboot r blOpts) = Return (underRoot r (spec_resolvedPath Redundant blOpts))"
    unfolding envFile_def using r
    by (intro envFile_resolved) (simp_all add: base_newUboot)
next
  assume r: "Clean r = r \<and> r \<noteq> ''.''"
  show "envFile (newUbootNoRedundEnv r blOpts) =
        Return (underRoot r (spec_resolvedPath NonRedundant blOpts))"
    unfolding envFile_def using r
    by (intro envFile_resolved) (simp_all add: base_newUbootNoRedundEnv)
qed

theorem processBlOpts_resolves_paths_witness:
  "base (processBlOpts (Some runModeOpts) (setDefaults (ubootNoRedundEnv \<lparr>rootdir = ''/r'', basedir = [], ubootEnvFileName = []\<rparr>))) =
     \<lparr>rootdir = ''/r'', basedir = ''/boot/uboot-nr/'', ubootEnvFileName = ''boot.sel''\<rparr> \<and>
   Clean ''/r'' = ''/r'' \<and> ''/r'' \<noteq> ''.'' \<and>
   envFile (newUboot ''/r'' (Some runModeOpts)) = Return ''/r/boot/uboot/boot.sel'' \<and>
   envFile (newUbootNoRedundEnv ''/r'' (Some runModeOpts)) = Return ''/r/boot/uboot-nr/boot.sel''"
  using processBlOpts_resolves_paths [of "Some runModeOpts"
      "ubootNoRedundEnv \<lparr>rootdir = ''/r'', basedir = [], ubootEnvFileName = []\<rparr>" "''/r''"]
    Clean_slash_r
  by (simp add: spec_resolve_def spec_resolvedPath_def underRoot_def runModeOpts_def)

text \<open>
  C2. When the store opens, \<open>SetBootVars\<close> sets exactly the entries whose value differs
  from the stored one (the keys of a Go map are distinct) and saves once if there is
  such an entry, not at all otherwise: the saved store is the opened one with those
  entries set. When the first call returned \<open>nil\<close>, a second call with the same map
  returns \<open>nil\<close> and does not save.
\<close>

theorem SetBootVars_write_minimisation:
  assumes ef: "envFile u = Return f" and dist: "distinct (map fst vals)"
    and op: "openEnvWithFlags sy u f {OpenBestEffort} w = (Inr env, wo)"
    and run1: "SetBootVars sy u vals w = (r1, w1)"
    and run2: "SetBootVars sy u vals w1 = (r2, w2)"
  shows "saveCount (newCalls w w1) = (if changedEntries env vals = [] then 0 else 1) \<and>
         (changedEntries env vals = [] \<longrightarrow> r1 = Return None \<and> stores w1 = stores w) \<and>
         (changedEntries env vals \<noteq> [] \<longrightarrow>
            r1 = Return (saveFails sy f) \<and>
            (saveFails sy f = None \<longrightarrow>
               stores w1 = (stores w)(f \<mapsto> setAll env (changedEntries env vals)))) \<and>
         (r1 = Return None \<longrightarrow> r2 = Return None \<and> saveCount (newCalls w1 w2) = 0)"
proof -
  define fl where "fl = variantFlags u {OpenBestEffort}"
  define ch where "ch = changedEntries env vals"
  obtain env0 where nf: "openFails sy f = None" and st: "stores w f = Some env0"
    and env: "env = env0\<lparr>envFname := f, envFlags := fl\<rparr>"
    and wo: "wo = logCall (Call_OpenWithFlags f fl) w"
    using open_success [OF op] unfolding fl_def by blast
  have fn: "envFname env = f" using env by simp
  have r1: "(r1, w1) =
           (if ch = [] then (Return None, wo)
            else (Return (saveFails sy f),
                  (case saveFails sy f of
                     Some err \<Rightarrow> logCall (Call_Save f) wo
                   | None \<Rightarrow> (logCall (Call_Save f) wo)
                       \<lparr>stores := (stores wo)(f \<mapsto> setAll env ch)\<rparr>)))"
    using SetBootVars_run [OF ef dist op, unfolded fn] run1 unfolding ch_def by simp
  have count: "saveCount (newCalls w w1) = (if ch = [] then 0 else 1)"
    using r1 wo by (auto simp: newCalls_simps saveCount_simps split: option.splits if_splits)
  have clean: "ch = [] \<longrightarrow> r1 = Return None \<and> stores w1 = stores w"
    using r1 wo by (auto simp: stores_logCall)
  have dirty: "ch \<noteq> [] \<longrightarrow> r1 = Return (saveFails sy f) \<and>
         (saveFails sy f = None \<longrightarrow> stores w1 = (stores w)(f \<mapsto> setAll env ch))"
    using r1 wo by (auto simp: stores_logCall)
  have twice: "r2 = Return None \<and> saveCount (newCalls w1 w2) = 0" if ok: "r1 = Return None"
  proof -
    obtain env1 where st1: "stores w1 f = Some env1"
      and get1: "\<And>k. Env_Get env1 k = Env_Get (setAll env ch) k"
    proof (cases "ch = []")
      case True
      then have "stores w1 f = Some env0" using clean st by simp
      moreover have "Env_Get env0 k = Env_Get (setAll env ch) k" for k
        using True env by (simp add: setAll_def Env_Get_def)
      ultimately show ?thesis using that by blast
    next
      case False
      then have "saveFails sy f = None" using dirty ok by simp
      then have "stores w1 f = Some (setAll env ch)" using dirty False by simp
      then show ?thesis using that by blast
    qed
    define env2 where "env2 = env1\<lparr>envFname := f, envFlags := fl\<rparr>"
    have op2: "openEnvWithFlags sy u f {OpenBestEffort} w1 =
                 (Inr env2, logCall (Call_OpenWithFlags f fl) w1)"
      unfolding env2_def fl_def by (rule open_stored [OF nf st1])
    have "\<And>k. Env_Get env2 k = Env_Get (setAll env ch) k"
      using get1 by (simp add: env2_def Env_Get_def)
    then have "changedEntries env2 vals = changedEntries (setAll env ch) vals"
      by (rule changedEntries_cong)
    then have none: "changedEntries env2 vals = []"
      unfolding ch_def by (simp add: changed_after_setAll [OF dist])
    have "(r2, w2) = (Return None, logCall (Call_OpenWithFlags f fl) w1)"
      using SetBootVars_run [OF ef dist op2] run2 none by simp
    then show ?thesis by (simp add: newCalls_simps saveCount_simps)
  qed
  show ?thesis using count clean dirty twice unfolding ch_def by blast
qed

theorem SetBootVars_write_minimisation_witness:
  "envFile (newUboot ''/r'' (Some runModeOpts)) = Return ''/r/boot/uboot/boot.sel'' \<and>
   distinct (map fst [(''mode'', ''try'')]) \<and>
   fst (SetBootVars exampleSys (newUboot ''/r'' (Some runModeOpts)) [(''mode'', ''try'')] storeWorld)
     = Return None \<and>
   saveCount (newCalls storeWorld
     (snd (SetBootVars exampleSys (newUboot ''/r'' (Some runModeOpts)) [(''mode'', ''try'')] storeWorld)))
     = 1 \<and>
   fst (SetBootVars exampleSys (newUboot ''/r'' (Some runModeOpts)) [(''mode'', ''try'')]
     (snd (SetBootVars exampleSys (newUboot ''/r'' (Some runModeOpts)) [(''mode'', ''try'')] storeWorld)))
     = Return None \<and>
   saveCount (newCalls
     (snd (SetBootVars exampleSys (newUboot ''/r'' (Some runModeOpts)) [(''mode'', ''try'')] storeWorld))
     (snd (SetBootVars exampleSys (newUboot ''/r'' (Some runModeOpts)) [(''mode'', ''try'')]
       (snd (SetBootVars exampleSys (newUboot ''/r'' (Some runModeOpts)) [(''mode'', ''try'')] storeWorld)))))
     = 0"
proof -
  let ?u = "newUboot ''/r'' (Some runModeOpts)"
  let ?vals = "[(''mode'', ''try'')]"
  let ?env = "\<lparr>envFname = ''/r/boot/uboot/boot.sel'', envSize = 4096, envFlags = {OpenBestEffort},
           envData = Map.empty\<rparr>"
  let ?run1 = "SetBootVars exampleSys ?u ?vals storeWorld"
  let ?run2 = "SetBootVars exampleSys ?u ?vals (snd ?run1)"
  have ef: "envFile ?u = Return ''/r/boot/uboot/boot.sel''" by (rule example_envFile)
  have dist: "distinct (map fst ?vals)" by simp
  have r1: "?run1 = (fst ?run1, snd ?run1)" by simp
  have r2: "?run2 = (fst ?run2, snd ?run2)" by simp
  have ch: "changedEntries ?env ?vals \<noteq> []" by (simp add: changedEntries_def Env_Get_def)
  have sf: "saveFails exampleSys ''/r/boot/uboot/boot.sel'' = None" by (simp add: exampleSys_def)
  show ?thesis
    using SetBootVars_write_minimisation [OF ef dist example_open(1) r1 r2] ef ch sf
    by simp
qed

text \<open>
  C3. When the gadget file has length zero, \<open>InstallBootConfig\<close> applies \<open>processBlOpts\<close>
  to the bootloader and never calls the generic installer. When the calls it makes
  succeed, it returns \<open>nil\<close> after exactly four calls: the \<open>Stat\<close>, \<open>MkdirAll\<close> of the
  directory of the environment file, the variant's creation of a store of 4096 bytes
  at the environment file, and its \<open>Save\<close>; the saved store holds no variable.
\<close>

theorem InstallBootConfig_empty_gadget_file:
  assumes st: "stat sy (Join [gadgetDir, Name u @ ''.conf'']) = Inr 0"
    and run: "InstallBootConfig sy gadgetDir blOpts u w = (r, u', w')"
  shows "u' = processBlOpts blOpts u \<and>
         \<not> list_ex isGenericInstall (newCalls w w') \<and>
         (\<forall>f. envFile u' = Return f \<and> mkdirAll sy (Dir f) = None \<and>
               createFails sy f = None \<and> saveFails sy f = None \<longrightarrow>
            r = Return None \<and>
            newCalls w w' =
              [Call_Stat (Join [gadgetDir, Name u @ ''.conf'']),
               Call_MkdirAll (Dir f) 493,
               (case u of
                  ubootRedundEnv b \<Rightarrow> Call_Create f 4096
                | ubootNoRedundEnv b \<Rightarrow> Call_CreateWithFlags f 4096 {OpenNoRedundEnv}),
               Call_Save f] \<and>
            stores w' = (stores w)(f \<mapsto>
              \<lparr>envFname = f, envSize = 4096,
               envFlags = (case u of ubootRedundEnv b \<Rightarrow> {} | ubootNoRedundEnv b \<Rightarrow> {OpenNoRedundEnv}),
               envData = Map.empty\<rparr>))"
proof (intro conjI allI impI)
  show "u' = processBlOpts blOpts u"
    using run st
    by (auto simp: InstallBootConfig_def Let_def os_Stat_def split: result.splits prod.splits option.splits sum.splits)
  show "\<not> list_ex isGenericInstall (newCalls w w')"
    using run st
    by (cases u)
       (auto simp: InstallBootConfig_def Let_def collaborator_defs newCalls_simps
          split: result.splits option.splits sum.splits)
next
  fix f
  assume ok: "envFile u' = Return f \<and> mkdirAll sy (Dir f) = None \<and>
               createFails sy f = None \<and> saveFails sy f = None"
  have u': "u' = processBlOpts blOpts u"
    using run st
    by (auto simp: InstallBootConfig_def Let_def os_Stat_def split: result.splits prod.splits option.splits sum.splits)
  have ef: "envFile (processBlOpts blOpts u) = Return f" using ok u' by simp
  have all: "r = Return None \<and>
        newCalls w w' =
              [Call_Stat (Join [gadgetDir, Name u @ ''.conf'']),
               Call_MkdirAll (Dir f) 493,
               (case u of
                  ubootRedundEnv b \<Rightarrow> Call_Create f 4096
                | ubootNoRedundEnv b \<Rightarrow> Call_CreateWithFlags f 4096 {OpenNoRedundEnv}),
               Call_Save f] \<and>
            stores w' = (stores w)(f \<mapsto>
              \<lparr>envFname = f, envSize = 4096,
               envFlags = (case u of ubootRedundEnv b \<Rightarrow> {} | ubootNoRedundEnv b \<Rightarrow> {OpenNoRedundEnv}),
               envData = Map.empty\<rparr>)"
    using run st ok ef
    by (cases u)
       (auto simp: InstallBootConfig_def Let_def collaborator_defs newCalls_simps stores_logCall)
  show "r = Return None" using all by simp
  show "newCalls w w' =
              [Call_Stat (Join [gadgetDir, Name u @ ''.conf'']),
               Call_MkdirAll (Dir f) 493,
               (case u of
                  ubootRedundEnv b \<Rightarrow> Call_Create f 4096
                | ubootNoRedundEnv b \<Rightarrow> Call_CreateWithFlags f 4096 {OpenNoRedundEnv}),
               Call_Save f]" using all by simp
  show "stores w' = (stores w)(f \<mapsto>
              \<lparr>envFname = f, envSize = 4096,
               envFlags = (case u of ubootRedundEnv b \<Rightarrow> {} | ubootNoRedundEnv b \<Rightarrow> {OpenNoRedundEnv}),
               envData = Map.empty\<rparr>)" using all by simp
qed

theorem InstallBootConfig_empty_gadget_file_witness:
  "stat exampleSys (Join [''/g'', Name (newUboot ''/r'' None) @ ''.conf'']) = Inr 0 \<and>
   fst (InstallBootConfig exampleSys ''/g'' (Some runModeOpts) (newUboot ''/r'' None) emptyWorld)
     = Return None \<and>
   fst (snd (InstallBootConfig exampleSys ''/g'' (Some runModeOpts) (newUboot ''/r'' None) emptyWorld))
     = newUboot ''/r'' (Some runModeOpts) \<and>
   newCalls emptyWorld
     (snd (snd (InstallBootConfig exampleSys ''/g'' (Some runModeOpts) (newUboot ''/r'' None) emptyWorld)))
     = [Call_Stat ''/g/uboot.conf'', Call_MkdirAll ''/r/boot/uboot'' 493,
        Call_Create ''/r/boot/uboot/boot.sel'' 4096, Call_Save ''/r/boot/uboot/boot.sel''] \<and>
   stores (snd (snd (InstallBootConfig exampleSys ''/g'' (Some runModeOpts) (newUboot ''/r'' None) emptyWorld)))
     = [''/r/boot/uboot/boot.sel'' \<mapsto>
          \<lparr>envFname = ''/r/boot/uboot/boot.sel'', envSize = 4096, envFlags = {},
           envData = Map.empty\<rparr>]"
proof -
  let ?run = "InstallBootConfig exampleSys ''/g'' (Some runModeOpts) (newUboot ''/r'' None) emptyWorld"
  have h1: "stat exampleSys (Join [''/g'', Name (newUboot ''/r'' None) @ ''.conf'']) = Inr 0"
    by (rule example_stat)
  have h2: "?run = (fst ?run, fst (snd ?run), snd (snd ?run))" by simp
  have u': "processBlOpts (Some runModeOpts) (newUboot ''/r'' None) = newUboot ''/r'' (Some runModeOpts)"
    by (simp add: newUboot_def Let_def ubootRedundEnv_setDefaults_def
          ubootRedundEnv_processBlOpts_def runModeOpts_def)
  have ok: "envFile (newUboot ''/r'' (Some runModeOpts)) = Return ''/r/boot/uboot/boot.sel'' \<and>
            mkdirAll exampleSys (Dir ''/r/boot/uboot/boot.sel'') = None \<and>
            createFails exampleSys ''/r/boot/uboot/boot.sel'' = None \<and>
            saveFails exampleSys ''/r/boot/uboot/boot.sel'' = None"
    by (simp add: example_envFile exampleSys_def)
  have d: "Dir ''/r/boot/uboot/boot.sel'' = ''/r/boot/uboot''"
    by (simp add: Dir_def Clean_def cleanElem_def)
  have n: "newUboot ''/r'' None = ubootRedundEnv \<lparr>rootdir = ''/r'', basedir = ''/boot/uboot/'', ubootEnvFileName = ''uboot.env''\<rparr>"
    by (simp add: newUboot_def Let_def ubootRedundEnv_setDefaults_def ubootRedundEnv_processBlOpts_def)
  have c1: "(case newUboot ''/r'' None of
               ubootRedundEnv b \<Rightarrow> Call_Create ''/r/boot/uboot/boot.sel'' 4096
             | ubootNoRedundEnv b \<Rightarrow> Call_CreateWithFlags ''/r/boot/uboot/boot.sel'' 4096 {OpenNoRedundEnv})
            = Call_Create ''/r/boot/uboot/boot.sel'' 4096"
    by (simp add: n)
  have c2: "(case newUboot ''/r'' None of ubootRedundEnv b \<Rightarrow> {} | ubootNoRedundEnv b \<Rightarrow> {OpenNoRedundEnv})
            = {}"
    by (simp add: n)
  have st: "stores emptyWorld = Map.empty" by (simp add: emptyWorld_def)
  have a: "fst (snd ?run) = newUboot ''/r'' (Some runModeOpts)"
    using InstallBootConfig_empty_gadget_file [OF h1 h2] u' by simp
  show ?thesis
    using InstallBootConfig_empty_gadget_file [OF h1 h2] h1 ok a
    by (simp add: d example_stat st c1 c2)
qed

text \<open>
  C4. In the branch for an empty gadget file, a failing \<open>Save\<close> is not reported: with a
  system whose stores cannot be saved, \<open>InstallBootConfig\<close> calls \<open>Save\<close>, nothing is
  stored, and the result is \<open>nil\<close>.
\<close>

theorem InstallBootConfig_swallows_save_error:
  "saveFails saveFailsSys ''/r/boot/uboot/uboot.env'' = Some (SysError ''input/output error'') \<and>
   InstallBootConfig saveFailsSys ''/g'' None (newUboot ''/r'' None) emptyWorld =
     (Return None, newUboot ''/r'' None,
      \<lparr>stores = Map.empty,
       trace = [Call_Stat ''/g/uboot.conf'', Call_MkdirAll ''/r/boot/uboot'' 493,
                Call_Create ''/r/boot/uboot/uboot.env'' 4096,
                Call_Save ''/r/boot/uboot/uboot.env'']\<rparr>)"
  by (simp add: eval_defs)

text \<open>
  C5. When the gadget file is not empty and the options have \<open>Role = RoleRecovery\<close>,
  \<open>InstallBootConfig\<close> returns the error "non-empty uboot.env not supported on UC20+
  yet"; the only call it has made is the \<open>Stat\<close> of the gadget file, and the stores are
  unchanged.
\<close>

theorem InstallBootConfig_nonempty_recovery_unsupported:
  assumes st: "stat sy (Join [gadgetDir, Name u @ ''.conf'']) = Inr n" and n: "n \<noteq> 0"
    and role: "Role opts = RoleRecovery"
    and run: "InstallBootConfig sy gadgetDir (Some opts) u w = (r, u', w')"
  shows "r = Return (Some (Errorf ''non-empty uboot.env not supported on UC20+ yet'')) \<and>
         stores w' = stores w \<and>
         newCalls w w' = [Call_Stat (Join [gadgetDir, Name u @ ''.conf''])]"
  using st n role run
  by (auto simp: InstallBootConfig_def Let_def os_Stat_def newCalls_simps stores_logCall)

theorem InstallBootConfig_nonempty_recovery_unsupported_witness:
  "stat exampleSys (Join [''/g'', Name (newUbootNoRedundEnv ''/r'' None) @ ''.conf'']) = Inr 131072 \<and>
   (131072 :: int) \<noteq> 0 \<and> Role recoveryOpts = RoleRecovery \<and>
   fst (InstallBootConfig exampleSys ''/g'' (Some recoveryOpts) (newUbootNoRedundEnv ''/r'' None) emptyWorld)
     = Return (Some (Errorf ''non-empty uboot.env not supported on UC20+ yet'')) \<and>
   stores (snd (snd (InstallBootConfig exampleSys ''/g'' (Some recoveryOpts)
                       (newUbootNoRedundEnv ''/r'' None) emptyWorld))) = stores emptyWorld \<and>
   newCalls emptyWorld
     (snd (snd (InstallBootConfig exampleSys ''/g'' (Some recoveryOpts)
                  (newUbootNoRedundEnv ''/r'' None) emptyWorld)))
     = [Call_Stat ''/g/uboot-nr.conf'']"
proof -
  let ?run = "InstallBootConfig exampleSys ''/g'' (Some recoveryOpts) (newUbootNoRedundEnv ''/r'' None) emptyWorld"
  have h1: "stat exampleSys (Join [''/g'', Name (newUbootNoRedundEnv ''/r'' None) @ ''.conf'']) = Inr 131072"
    by (rule example_stat)
  have h2: "(131072 :: int) \<noteq> 0" by simp
  have h3: "Role recoveryOpts = RoleRecovery" by (simp add: recoveryOpts_def)
  have h4: "?run = (fst ?run, fst (snd ?run), snd (snd ?run))" by simp
  show ?thesis
    using InstallBootConfig_nonempty_recovery_unsupported [OF h1 h2 h3 h4] h1 h3
    by (simp add: example_stat)
qed

text \<open>
  C6. When the store opens, \<open>GetBootVars\<close> returns a map whose keys are exactly the
  requested names; a name set in the store maps to its value, a name that is not set
  maps to the empty string, and the result is never an error.
\<close>

theorem GetBootVars_requested_names:
  assumes ef: "envFile u = Return f"
    and op: "openEnvWithFlags sy u f {OpenBestEffort} w = (Inr env, wo)"
  shows "\<exists>out. fst (GetBootVars sy u names w) = Return (Inr out) \<and>
           dom out = set names \<and>
           (\<forall>n \<in> set names.
              out n = Some (case envData env n of None \<Rightarrow> [] | Some v \<Rightarrow> v))"
proof -
  have "fst (GetBootVars sy u names w) = Return (Inr (getLoop names env Map.empty))"
    using ef op by (simp add: GetBootVars_def Let_def)
  moreover have "dom (getLoop names env Map.empty) = set names"
    by (auto simp: getLoop_eq split: if_splits)
  moreover have "\<forall>n \<in> set names. getLoop names env Map.empty n
                    = Some (case envData env n of None \<Rightarrow> [] | Some v \<Rightarrow> v)"
    by (simp add: getLoop_eq Env_Get_def)
  ultimately show ?thesis by blast
qed

theorem GetBootVars_requested_names_witness:
  "envFile (newUboot ''/r'' (Some runModeOpts)) = Return ''/r/boot/uboot/boot.sel'' \<and>
   (\<exists>out. fst (GetBootVars exampleSys (newUboot ''/r'' (Some runModeOpts))
                 [''snap_mode'', ''snap_kernel''] triedWorld) = Return (Inr out) \<and>
          dom out = {''snap_mode'', ''snap_kernel''} \<and>
          out ''snap_mode'' = Some ''try'' \<and> out ''snap_kernel'' = Some [])"
proof -
  have ef: "envFile (newUboot ''/r'' (Some runModeOpts)) = Return ''/r/boot/uboot/boot.sel''"
    by (rule example_envFile)
  show ?thesis
    using GetBootVars_requested_names [OF ef example_open(2), of "[''snap_mode'', ''snap_kernel'']"] ef
    by simp
qed

text \<open>
  C7. With a non-empty \<open>rootdir\<close>, \<open>Present\<close> returns what the existence check says for
  the environment file, together with a \<open>nil\<close> error.
\<close>

theorem Present_reports_existence:
  assumes "rootdir (base u) \<noteq> []"
  shows "\<exists>f. envFile u = Return f \<and>
              Present sy u w = (Return (fileExists sy f, None), logCall (Call_FileExists f) w)"
  using assms
  by (simp add: Present_def envFile_def ubootBase_envFile_def ubootBase_dir_def osutil_FileExists_def)

theorem Present_reports_existence_witness:
  "rootdir (base (newUboot ''/r'' (Some runModeOpts))) \<noteq> [] \<and>
   Present exampleSys (newUboot ''/r'' (Some runModeOpts)) emptyWorld =
     (Return (True, None), logCall (Call_FileExists ''/r/boot/uboot/boot.sel'') emptyWorld) \<and>
   rootdir (base (newUboot ''/r'' None)) \<noteq> [] \<and>
   Present exampleSys (newUboot ''/r'' None) emptyWorld =
     (Return (False, None), logCall (Call_FileExists ''/r/boot/uboot/uboot.env'') emptyWorld)"
proof -
  have h1: "rootdir (base (newUboot ''/r'' (Some runModeOpts))) \<noteq> []"
    by (simp add: base_newUboot)
  have h2: "rootdir (base (newUboot ''/r'' None)) \<noteq> []"
    by (simp add: base_newUboot)
  have fe: "fileExists exampleSys ''/r/boot/uboot/boot.sel''"
      "\<not> fileExists exampleSys ''/r/boot/uboot/uboot.env''"
    by (simp_all add: exampleSys_def)
  show ?thesis
    using Present_reports_existence [OF h1, of exampleSys emptyWorld]
      Present_reports_existence [OF h2, of exampleSys emptyWorld] h1 h2 fe
    by (auto simp: example_envFile)
qed

text \<open>
  C8. \<open>ExtractRecoveryKernelAssets\<close> with an empty \<open>recoverySystemDir\<close> returns the error
  "internal error: recoverySystemDir unset" and makes no call. With a non-empty one its
  single call extracts \<open>kernel.img\<close>, \<open>initrd.img\<close> and \<open>dtbs/*\<close> into
  \<open>Join(rootDir(), recoverySystemDir, "kernel")\<close>, and it returns the result of that call.
\<close>

theorem ExtractRecoveryKernelAssets_checks_dir:
  "ExtractRecoveryKernelAssets sy u [] s snapf w =
     (Return (Some (Errorf ''internal error: recoverySystemDir unset'')), w) \<and>
   (recoverySystemDir \<noteq> [] \<longrightarrow>
      ExtractRecoveryKernelAssets sy u recoverySystemDir s snapf w =
        (Return (extractFails sy (Join [rootDir u, recoverySystemDir, ''kernel''])),
         logCall (Call_extractKernelAssetsToBootDir
                    (Join [rootDir u, recoverySystemDir, ''kernel'']) snapf
                    [''kernel.img'', ''initrd.img'', ''dtbs/*'']) w))"
  by (simp add: ExtractRecoveryKernelAssets_def Let_def extractKernelAssetsToBootDir_def)

theorem ExtractRecoveryKernelAssets_checks_dir_witness:
  "ExtractRecoveryKernelAssets exampleSys (newUboot ''/r'' None) [] \<lparr>Filename = ''pi-kernel_1.snap''\<rparr>
       (Container ''pi-kernel'') emptyWorld =
     (Return (Some (Errorf ''internal error: recoverySystemDir unset'')), emptyWorld) \<and>
   ''systems/20191118'' \<noteq> [] \<and>
   ExtractRecoveryKernelAssets exampleSys (newUboot ''/r'' None) ''systems/20191118''
       \<lparr>Filename = ''pi-kernel_1.snap''\<rparr> (Container ''pi-kernel'') emptyWorld =
     (Return None,
      logCall (Call_extractKernelAssetsToBootDir ''/r/systems/20191118/kernel''
                 (Container ''pi-kernel'') [''kernel.img'', ''initrd.img'', ''dtbs/*'']) emptyWorld)"
proof -
  have j: "Join [rootDir (newUboot ''/r'' None), ''systems/20191118'', ''kernel'']
             = ''/r/systems/20191118/kernel''"
    by (simp add: eval_defs)
  have ok: "extractFails exampleSys ''/r/systems/20191118/kernel'' = None"
    by (simp add: exampleSys_def)
  show ?thesis
    using ExtractRecoveryKernelAssets_checks_dir [of exampleSys "newUboot ''/r'' None"
        "\<lparr>Filename = ''pi-kernel_1.snap''\<rparr>" "Container ''pi-kernel''" emptyWorld "''systems/20191118''"]
      j ok
    by simp
qed

text \<open>
  C9. \<open>dir()\<close> panics when \<open>rootdir\<close> is empty. When it is not, \<open>dir()\<close> returns
  \<open>Join(rootdir, basedir)\<close> and \<open>envFile()\<close> returns \<open>Join(dir(), ubootEnvFileName)\<close>; neither
  panics.
\<close>

theorem dir_panics_without_rootdir:
  "(rootdir b = [] \<longrightarrow> ubootBase_dir b = Panic ''internal error: unset rootdir'') \<and>
   (rootdir b \<noteq> [] \<longrightarrow>
      ubootBase_dir b = Return (Join [rootdir b, basedir b]) \<and>
      ubootBase_envFile b = Return (Join [Join [rootdir b, basedir b], ubootEnvFileName b]))"
  by (simp add: ubootBase_dir_def ubootBase_envFile_def)

theorem dir_panics_without_rootdir_witness:
  "ubootBase_dir \<lparr>rootdir = [], basedir = ''/boot/uboot/'', ubootEnvFileName = ''uboot.env''\<rparr>
     = Panic ''internal error: unset rootdir'' \<and>
   ubootBase_dir \<lparr>rootdir = ''/r'', basedir = ''/boot/uboot/'', ubootEnvFileName = ''uboot.env''\<rparr>
     = Return ''/r/boot/uboot'' \<and>
   ubootBase_envFile \<lparr>rootdir = ''/r'', basedir = ''/boot/uboot/'', ubootEnvFileName = ''uboot.env''\<rparr>
     = Return ''/r/boot/uboot/uboot.env''"
  using dir_panics_without_rootdir [of "\<lparr>rootdir = [], basedir = ''/boot/uboot/'', ubootEnvFileName = ''uboot.env''\<rparr>"]
    dir_panics_without_rootdir [of "\<lparr>rootdir = ''/r'', basedir = ''/boot/uboot/'', ubootEnvFileName = ''uboot.env''\<rparr>"]
  by (simp add: Join_def Clean_def cleanElem_def)

text \<open>
  C10. When the gadget file is not empty and the role is not \<open>RoleRecovery\<close>,
  \<open>InstallBootConfig\<close> leaves the bootloader with the variant's default base directory
  and file name, whatever the options were at construction or are now, and calls the
  generic installer once, with the variant's default environment path under the root
  directory as its target; it returns the installer's result.
\<close>

theorem InstallBootConfig_nonempty_uses_defaults:
  assumes st: "stat sy (Join [gadgetDir, Name u @ ''.conf'']) = Inr n" and n: "n \<noteq> 0"
    and role: "blOpts = None \<or> (\<exists>opts. blOpts = Some opts \<and> Role opts \<noteq> RoleRecovery)"
    and rd: "rootdir (base u) = r" and cl: "Clean r = r" and ndot: "r \<noteq> ''.''"
    and run: "InstallBootConfig sy gadgetDir blOpts u w = (res, u', w')"
  shows "basedir (base u') = spec_defaultBasedir (variantOf u) \<and>
         ubootEnvFileName (base u') = ''uboot.env'' \<and>
         envFile u' = Return (underRoot r (spec_defaultPath (variantOf u))) \<and>
         newCalls w w' =
           [Call_Stat (Join [gadgetDir, Name u @ ''.conf'']),
            Call_genericInstallBootConfig (Join [gadgetDir, Name u @ ''.conf''])
              (underRoot r (spec_defaultPath (variantOf u)))] \<and>
         res = Return (installFails sy (Join [gadgetDir, Name u @ ''.conf''])
                         (underRoot r (spec_defaultPath (variantOf u))))"
proof -
  have ef: "envFile (setDefaults u) = Return (underRoot r (spec_defaultPath (variantOf u)))"
    by (rule envFile_setDefaults [OF cl ndot rd])
  have nrec: "(case blOpts of None \<Rightarrow> False | Some opts \<Rightarrow> Role opts = RoleRecovery) = False"
    using role by auto
  have eq: "(res, u', w') =
      (Return (installFails sy (Join [gadgetDir, Name u @ ''.conf''])
                 (underRoot r (spec_defaultPath (variantOf u)))),
       setDefaults u,
       logCall (Call_genericInstallBootConfig (Join [gadgetDir, Name u @ ''.conf''])
                  (underRoot r (spec_defaultPath (variantOf u))))
         (logCall (Call_Stat (Join [gadgetDir, Name u @ ''.conf''])) w))"
    using run st n ef nrec
    by (simp add: InstallBootConfig_def Let_def os_Stat_def genericInstallBootConfig_def)
  have defaults: "basedir (base (setDefaults u)) = spec_defaultBasedir (variantOf u) \<and>
                  ubootEnvFileName (base (setDefaults u)) = ''uboot.env''"
    by (cases u) (simp_all add: ubootRedundEnv_setDefaults_def ubootNoRedundEnv_setDefaults_def)
  show ?thesis using eq ef defaults by (simp add: newCalls_simps)
qed

theorem InstallBootConfig_nonempty_uses_defaults_witness:
  "stat exampleSys (Join [''/g'', Name (newUbootNoRedundEnv ''/r'' (Some runModeOpts)) @ ''.conf''])
     = Inr 131072 \<and>
   Role runModeOpts \<noteq> RoleRecovery \<and> Clean ''/r'' = ''/r'' \<and>
   envFile (newUbootNoRedundEnv ''/r'' (Some runModeOpts)) = Return ''/r/boot/uboot-nr/boot.sel'' \<and>
   envFile (fst (snd (InstallBootConfig exampleSys ''/g'' (Some runModeOpts)
                        (newUbootNoRedundEnv ''/r'' (Some runModeOpts)) emptyWorld)))
     = Return ''/r/boot/uboot-nr/uboot.env'' \<and>
   newCalls emptyWorld
     (snd (snd (InstallBootConfig exampleSys ''/g'' (Some runModeOpts)
                  (newUbootNoRedundEnv ''/r'' (Some runModeOpts)) emptyWorld)))
     = [Call_Stat ''/g/uboot-nr.conf'',
        Call_genericInstallBootConfig ''/g/uboot-nr.conf'' ''/r/boot/uboot-nr/uboot.env''] \<and>
   fst (InstallBootConfig exampleSys ''/g'' (Some runModeOpts)
          (newUbootNoRedundEnv ''/r'' (Some runModeOpts)) emptyWorld) = Return None"
proof -
  let ?u = "newUbootNoRedundEnv ''/r'' (Some runModeOpts)"
  let ?run = "InstallBootConfig exampleSys ''/g'' (Some runModeOpts) ?u emptyWorld"
  have h1: "stat exampleSys (Join [''/g'', Name ?u @ ''.conf'']) = Inr 131072"
    by (rule example_stat)
  have h2: "(131072 :: int) \<noteq> 0" by simp
  have nr: "Role runModeOpts \<noteq> RoleRecovery" by (simp add: runModeOpts_def)
  have h3: "Some runModeOpts = None \<or> (\<exists>opts. Some runModeOpts = Some opts \<and> Role opts \<noteq> RoleRecovery)"
    using nr by simp
  have h4: "rootdir (base ?u) = ''/r''" by (simp add: base_newUbootNoRedundEnv)
  have h5: "Clean ''/r'' = ''/r''" by (simp add: Clean_def cleanElem_def)
  have h6: "''/r'' \<noteq> ''.''" by simp
  have h7: "?run = (fst ?run, fst (snd ?run), snd (snd ?run))" by simp
  have v: "variantOf ?u = NonRedundant" by (simp add: newUbootNoRedundEnv_def Let_def)
  have before: "envFile ?u = Return ''/r/boot/uboot-nr/boot.sel''" by (simp add: eval_defs)
  have ok: "installFails exampleSys ''/g/uboot-nr.conf'' ''/r/boot/uboot-nr/uboot.env'' = None"
    by (simp add: exampleSys_def)
  show ?thesis
    using InstallBootConfig_nonempty_uses_defaults [OF h1 h2 h3 h4 h5 h6 h7] h1 nr h5 before ok
    by (simp add: v underRoot_def example_stat)
qed

end
